theory Spec2Isabelle
  imports Complex_Main
begin

section \<open>Numbers and errors\<close>

text \<open>
  The game mixes Python ints (screen size, level tables, the drawn floor) with Python
  floats (gravity 0.5, positions and velocities once gravity has been added). Values that
  the source keeps as ints and divides with \<open>//\<close> are \<open>int\<close> here (HOL's \<open>div\<close> on
  \<open>int\<close> rounds towards minus infinity, as \<open>//\<close> does); every other number is an exact
  rational, \<open>rat\<close>. With the default gravity 0.5 all positions are multiples of one half,
  which floats represent exactly; the concrete inputs evaluated below are of that kind.
\<close>

datatype py_error = ValueError

text \<open>
  \<open>random.randint(a, b)\<close>: raises \<open>ValueError\<close> on an empty range and otherwise returns
  some integer of the range. The integer drawn is the parameter \<open>r\<close>; a caller that
  relies on \<open>a \<le> r \<and> r \<le> b\<close> assumes it.
\<close>

definition randint :: "int \<Rightarrow> int \<Rightarrow> int \<Rightarrow> py_error + int" where
  "randint a b r = (if a > b then Inl ValueError else Inr r)"

text \<open>\<open>int(x)\<close> on a number: truncation towards zero.\<close>

definition py_int :: "rat \<Rightarrow> int" where
  "py_int x = (if x \<ge> 0 then \<lfloor>x\<rfloor> else - \<lfloor>- x\<rfloor>)"

section \<open>game_engine.py: class GameEngine\<close>

text \<open>A pipe of \<open>GameEngine.pipes\<close>: the dict with keys xPosition, topPipe, bottomPipe.\<close>

record pipe =
  xPosition :: rat
  topPipe :: rat
  bottomPipe :: rat

record game_engine =
  screen_width :: int
  screen_height :: int
  pipe_speed :: rat
  gravity :: rat
  pilot_x :: rat
  pilot_y :: rat
  pilot_width :: rat
  pilot_height :: rat
  pilot_velocity :: rat
  jump_velocity :: rat
  floor_y :: int
  pipes :: "pipe list"
  score :: int
  frame_count :: int
  game_over :: bool
  passed_pipes :: "nat set"
  autopilot :: bool

text \<open>\<open>GameEngine.__init__\<close>; the defaults are \<open>GameEngine_init 800 600 3 (1/2)\<close>.\<close>

definition GameEngine_init :: "int \<Rightarrow> int \<Rightarrow> rat \<Rightarrow> rat \<Rightarrow> game_engine" where
  "GameEngine_init sw sh ps g =
     \<lparr> screen_width = sw, screen_height = sh, pipe_speed = ps, gravity = g,
       pilot_x = 100, pilot_y = of_int (sh div 2), pilot_width = 30, pilot_height = 30,
       pilot_velocity = 0, jump_velocity = - 8,
       floor_y = sh,
       pipes = [], score = 0, frame_count = 0, game_over = False, passed_pipes = {},
       autopilot = False \<rparr>"

text \<open>\<open>GameEngine.reset\<close>\<close>

definition reset :: "game_engine \<Rightarrow> game_engine" where
  "reset g =
     g\<lparr> pilot_y := of_int (screen_height g div 2),
        pilot_velocity := 0,
        pipes := [],
        score := 0,
        frame_count := 0,
        game_over := False,
        passed_pipes := {} \<rparr>"

text \<open>
  A level table of \<open>levels.py\<close>, as \<open>load_level\<close> reads it: the optional keys
  \<open>"min"\<close> and \<open>"max"\<close> of the \<open>"floor"\<close> dict (an absent \<open>"floor"\<close> is the dict
  without either key), and the list under \<open>"pipes"\<close>, each entry with its three keys.
\<close>

record pipe_config =
  xPosition_cfg :: int
  gapCenter :: int
  gapHeight :: int

record floor_config =
  min_floor_cfg :: "int option"
  max_floor_cfg :: "int option"

record level_config =
  floor_cfg :: floor_config
  pipes_cfg :: "pipe_config list"

text \<open>The body of the loop over \<open>level_config["pipes"]\<close>, for the floor \<open>fl\<close> drawn.\<close>

definition make_pipe :: "int \<Rightarrow> pipe_config \<Rightarrow> pipe" where
  "make_pipe fl pc =
     (let gap_top = gapCenter pc - gapHeight pc div 2;
          gap_bottom = gapCenter pc + gapHeight pc div 2;
          gap_bottom' = (if gap_bottom > fl then fl - 10 else gap_bottom);
          gap_top' = (if gap_bottom > fl then gap_bottom' - gapHeight pc else gap_top)
      in \<lparr> xPosition = of_int (xPosition_cfg pc),
           topPipe = of_int gap_top',
           bottomPipe = of_int gap_bottom' \<rparr>)"

text \<open>The floor draw of \<open>load_level\<close>, with \<open>r\<close> the integer \<open>random.randint\<close> returns.\<close>

definition draw_floor :: "game_engine \<Rightarrow> floor_config \<Rightarrow> int \<Rightarrow> py_error + int" where
  "draw_floor g fc r =
     (case (min_floor_cfg fc, max_floor_cfg fc) of
        (Some lo, Some hi) \<Rightarrow> randint lo hi r
      | _ \<Rightarrow> randint (py_int (of_int (screen_height g) * (3 / 4))) (screen_height g) r)"

text \<open>
  \<open>GameEngine.load_level\<close>. The result is the exception raised, if any, and the
  engine as the call leaves it: \<open>reset\<close> has run before the floor is drawn.
\<close>

definition load_level :: "game_engine \<Rightarrow> level_config \<Rightarrow> int \<Rightarrow> py_error option \<times> game_engine" where
  "load_level g cfg r =
     (let g1 = reset g in
      case draw_floor g1 (floor_cfg cfg) r of
        Inl e \<Rightarrow> (Some e, g1)
      | Inr fl \<Rightarrow>
          (None, g1\<lparr> floor_y := fl,
                     pipes := pipes g1 @ map (make_pipe fl) (pipes_cfg cfg) \<rparr>))"

text \<open>\<open>GameEngine.jump\<close>\<close>

definition jump :: "game_engine \<Rightarrow> game_engine" where
  "jump g = (if \<not> game_over g then g\<lparr> pilot_velocity := jump_velocity g \<rparr> else g)"

text \<open>\<open>GameEngine.get_current_pipe\<close>: the first pipe, with its index, not yet behind the pilot.\<close>

definition get_current_pipe :: "game_engine \<Rightarrow> (nat \<times> pipe) option" where
  "get_current_pipe g =
     find (\<lambda>(i, p). xPosition p + 50 > pilot_x g) (enumerate 0 (pipes g))"

text \<open>\<open>GameEngine.check_collision\<close>; the loop over the pipes returns at the first hit.\<close>

fun pipe_collision :: "game_engine \<Rightarrow> pipe list \<Rightarrow> bool" where
  "pipe_collision g [] = False"
| "pipe_collision g (p # ps) =
     (if xPosition p < pilot_x g + pilot_width g \<and> xPosition p + 50 > pilot_x g
      then (if pilot_y g < topPipe p \<or> pilot_y g + pilot_height g > bottomPipe p
            then True
            else pipe_collision g ps)
      else pipe_collision g ps)"

definition check_collision :: "game_engine \<Rightarrow> bool" where
  "check_collision g =
     (if pilot_y g \<le> 0 then True
      else if pilot_y g + pilot_height g \<ge> of_int (floor_y g) then True
      else pipe_collision g (pipes g))"

text \<open>
  \<open>GameEngine.update_score\<close>: the loop over \<open>enumerate(self.pipes)\<close>, carrying the
  score and the set \<open>passed_pipes\<close> of credited list indices.
\<close>

fun update_score_loop :: "rat \<Rightarrow> (nat \<times> pipe) list \<Rightarrow> int \<times> nat set \<Rightarrow> int \<times> nat set" where
  "update_score_loop px [] (sc, pp) = (sc, pp)"
| "update_score_loop px ((i, p) # rest) (sc, pp) =
     (if xPosition p + 50 < px \<and> i \<notin> pp
      then update_score_loop px rest (sc + 1, insert i pp)
      else update_score_loop px rest (sc, pp))"

definition update_score :: "game_engine \<Rightarrow> game_engine" where
  "update_score g =
     (case update_score_loop (pilot_x g) (enumerate 0 (pipes g)) (score g, passed_pipes g) of
        (sc, pp) \<Rightarrow> g\<lparr> score := sc, passed_pipes := pp \<rparr>)"

text \<open>
  \<open>GameEngine.update\<close>, split where the source's comments split it: \<open>advance\<close> is the
  frame count, the jump, the pilot's integration and the pipes' move; then the score;
  then the collision check.
\<close>

definition move_pipe :: "rat \<Rightarrow> pipe \<Rightarrow> pipe" where
  "move_pipe speed p = p\<lparr> xPosition := xPosition p - speed \<rparr>"

definition advance :: "game_engine \<Rightarrow> bool \<Rightarrow> game_engine" where
  "advance g should_jump =
     (let g1 = g\<lparr> frame_count := frame_count g + 1 \<rparr>;
          g2 = (if should_jump then jump g1 else g1);
          g3 = g2\<lparr> pilot_velocity := pilot_velocity g2 + gravity g2 \<rparr>;
          g4 = g3\<lparr> pilot_y := pilot_y g3 + pilot_velocity g3 \<rparr>
      in g4\<lparr> pipes := map (move_pipe (pipe_speed g4)) (pipes g4) \<rparr>)"

definition update :: "game_engine \<Rightarrow> bool \<Rightarrow> game_engine" where
  "update g should_jump =
     (if game_over g then g
      else
        let g6 = update_score (advance g should_jump)
        in if check_collision g6 then g6\<lparr> game_over := True \<rparr> else g6)"

text \<open>A sequence of calls of \<open>update\<close>, one decision per call.\<close>

fun updates :: "game_engine \<Rightarrow> bool list \<Rightarrow> game_engine" where
  "updates g [] = g"
| "updates g (d # ds) = updates (update g d) ds"

text \<open>
  \<open>GameEngine.get_game_state\<close>: the dict handed to \<open>shouldJump\<close>, with the keys its
  docstring lists. The key \<open>"gravity"\<close> occurs in the pilot dict and at top level, and
  \<open>"floor"\<close> is HOL's rounding function, hence the suffixes.
\<close>

record pilot_state =
  xPos :: rat
  yPos :: rat
  height :: rat
  width :: rat
  gravity_pilot :: rat
  jumpVelocity :: rat
  velocity :: rat

record game_state =
  pilot :: pilot_state
  pipeSpeed :: rat
  currentPipe :: "pipe option"
  pipeArray :: "pipe list"
  gravity_gs :: rat
  floor_gs :: rat

definition get_game_state :: "game_engine \<Rightarrow> game_state" where
  "get_game_state g =
     \<lparr> pilot = \<lparr> xPos = pilot_x g, yPos = pilot_y g, height = pilot_height g,
                 width = pilot_width g, gravity_pilot = gravity g,
                 jumpVelocity = jump_velocity g, velocity = pilot_velocity g \<rparr>,
       pipeSpeed = pipe_speed g,
       currentPipe = map_option snd (get_current_pipe g),
       pipeArray = pipes g,
       gravity_gs = gravity g,
       floor_gs = of_int (floor_y g) \<rparr>"

section \<open>ai_controller.py: shouldJump\<close>

text \<open>The loop \<open>for _ in range(frames_to_check)\<close>: gravity-only free fall, position first.\<close>

fun free_fall :: "nat \<Rightarrow> rat \<Rightarrow> rat \<Rightarrow> rat \<Rightarrow> rat \<times> rat" where
  "free_fall 0 grav predicted_y predicted_velocity = (predicted_y, predicted_velocity)"
| "free_fall (Suc n) grav predicted_y predicted_velocity =
     free_fall n grav (predicted_y + (predicted_velocity + grav)) (predicted_velocity + grav)"

definition safety_margin :: "game_state \<Rightarrow> rat" where
  "safety_margin gs = max (max (height (pilot gs) * (1 / 10)) (width (pilot gs) * (1 / 10))) 5"

definition pilot_bottom_next_frame :: "game_state \<Rightarrow> rat" where
  "pilot_bottom_next_frame gs =
     (let next_velocity = velocity (pilot gs) + gravity_gs gs;
          next_y = yPos (pilot gs) + next_velocity
      in next_y + height (pilot gs))"

text \<open>Priority 1: the floor test.\<close>

definition floor_rule :: "game_state \<Rightarrow> bool" where
  "floor_rule gs = (pilot_bottom_next_frame gs + safety_margin gs \<ge> floor_gs gs)"

text \<open>Priority 2: the emergency test against the bottom pipe of a pipe that is close.\<close>

definition emergency_rule :: "game_state \<Rightarrow> bool" where
  "emergency_rule gs =
     (case currentPipe gs of
        None \<Rightarrow> False
      | Some p \<Rightarrow>
          (let gap_bottom = bottomPipe p;
               distance_to_pipe = xPosition p - xPos (pilot gs)
           in if 0 < distance_to_pipe \<and> distance_to_pipe < 150
              then (let predicted_y =
                          fst (free_fall 5 (gravity_gs gs) (yPos (pilot gs)) (velocity (pilot gs)));
                        predicted_bottom = predicted_y + height (pilot gs)
                    in predicted_bottom + 5 \<ge> gap_bottom)
              else False))"

text \<open>The strategy chosen once a pipe exists: the two constants are the source's.\<close>

definition SCREEN_CENTER :: rat where
  "SCREEN_CENTER = 300"

definition apex_height :: rat where
  "apex_height = 64"

definition minimum_y :: "pipe \<Rightarrow> rat" where
  "minimum_y p =
     (let gap_bottom = bottomPipe p;
          gap_height = bottomPipe p - topPipe p;
          target_y = gap_bottom - gap_height * (3 / 4)
      in target_y + apex_height)"

definition pipe_strategy :: "game_state \<Rightarrow> pipe \<Rightarrow> bool" where
  "pipe_strategy gs p =
     (let gap_top = topPipe p;
          gap_bottom = bottomPipe p;
          gap_center = (gap_top + gap_bottom) / 2
      in if gap_center \<le> SCREEN_CENTER
         then (if minimum_y p \<ge> floor_gs gs - 20
               then (if pilot_bottom_next_frame gs + safety_margin gs \<ge> gap_bottom
                     then True else False)
               else (if yPos (pilot gs) \<ge> minimum_y p then True else False))
         else (if pilot_bottom_next_frame gs + safety_margin gs \<ge> gap_bottom
               then True else False))"

definition shouldJump :: "game_state \<Rightarrow> bool" where
  "shouldJump gs =
     (if floor_rule gs then True
      else if emergency_rule gs then True
      else (case currentPipe gs of
              None \<Rightarrow> False
            | Some p \<Rightarrow> pipe_strategy gs p))"

section \<open>flappy_bird_sim.py: Pilot, Pipe, FlappyBirdGame\<close>

text \<open>
  The attributes keep their names, with the class as suffix where the name is already
  a field of \<open>GameEngine\<close> or of the decision snapshot.
\<close>

record Pilot =
  x_pos :: rat
  y_pos :: rat
  height_Pilot :: rat
  width_Pilot :: rat
  gravity_Pilot :: rat
  jump_velocity_Pilot :: rat
  velocity_Pilot :: rat

definition Pilot_init :: "rat \<Rightarrow> rat \<Rightarrow> rat \<Rightarrow> Pilot" where
  "Pilot_init x y g =
     \<lparr> x_pos = x, y_pos = y, height_Pilot = 30, width_Pilot = 30, gravity_Pilot = g,
       jump_velocity_Pilot = - 8, velocity_Pilot = 0 \<rparr>"

definition Pilot_jump :: "Pilot \<Rightarrow> Pilot" where
  "Pilot_jump p = p\<lparr> velocity_Pilot := jump_velocity_Pilot p \<rparr>"

definition Pilot_update :: "Pilot \<Rightarrow> rat \<Rightarrow> Pilot" where
  "Pilot_update p g =
     (let p1 = p\<lparr> velocity_Pilot := velocity_Pilot p + g \<rparr>
      in p1\<lparr> y_pos := y_pos p1 + velocity_Pilot p1 \<rparr>)"

record Pipe =
  x_position :: rat
  gap_y_center :: int
  gap_height :: int
  top_pipe :: int
  bottom_pipe :: int

definition Pipe_init :: "rat \<Rightarrow> int \<Rightarrow> int \<Rightarrow> Pipe" where
  "Pipe_init x c h =
     \<lparr> x_position = x, gap_y_center = c, gap_height = h,
       top_pipe = c - h div 2, bottom_pipe = c + h div 2 \<rparr>"

definition Pipe_update :: "Pipe \<Rightarrow> rat \<Rightarrow> Pipe" where
  "Pipe_update p speed = p\<lparr> x_position := x_position p - speed \<rparr>"

record FlappyBirdGame =
  screen_width_fb :: int
  screen_height_fb :: int
  pipe_speed_fb :: rat
  gravity_fb :: rat
  pilot_fb :: Pilot
  pipes_fb :: "Pipe list"
  score_fb :: int
  frame_count_fb :: int
  game_over_fb :: bool

text \<open>
  \<open>FlappyBirdGame.__init__\<close> with \<open>_generate_initial_pipes\<close>: \<open>rs\<close> are the four gap
  centres \<open>random.randint(150, screen_height - 150)\<close> returns, which raises on a screen
  lower than 300.
\<close>

definition FlappyBirdGame_init ::
  "int \<Rightarrow> int \<Rightarrow> rat \<Rightarrow> rat \<Rightarrow> int \<Rightarrow> int \<Rightarrow> int \<Rightarrow> int \<Rightarrow> py_error + FlappyBirdGame" where
  "FlappyBirdGame_init sw sh ps g r0 r1 r2 r3 =
     (if 150 > sh - 150 then Inl ValueError
      else Inr \<lparr> screen_width_fb = sw, screen_height_fb = sh, pipe_speed_fb = ps,
                 gravity_fb = g,
                 pilot_fb = Pilot_init 100 (of_int (sh div 2)) g,
                 pipes_fb = [Pipe_init (of_int (sw + 0 * 250)) r0 150,
                             Pipe_init (of_int (sw + 1 * 250)) r1 150,
                             Pipe_init (of_int (sw + 2 * 250)) r2 150,
                             Pipe_init (of_int (sw + 3 * 250)) r3 150],
                 score_fb = 0, frame_count_fb = 0, game_over_fb = False \<rparr>)"

text \<open>\<open>FlappyBirdGame.check_collision\<close>: the floor is the bottom of the screen.\<close>

fun pipe_collision_fb :: "Pilot \<Rightarrow> Pipe list \<Rightarrow> bool" where
  "pipe_collision_fb pl [] = False"
| "pipe_collision_fb pl (p # ps) =
     (if x_position p < x_pos pl + width_Pilot pl \<and> x_position p + 50 > x_pos pl
      then (if y_pos pl < of_int (top_pipe p) \<or> y_pos pl + height_Pilot pl > of_int (bottom_pipe p)
            then True
            else pipe_collision_fb pl ps)
      else pipe_collision_fb pl ps)"

definition check_collision_fb :: "FlappyBirdGame \<Rightarrow> bool" where
  "check_collision_fb s =
     (if y_pos (pilot_fb s) \<le> 0
         \<or> y_pos (pilot_fb s) + height_Pilot (pilot_fb s) \<ge> of_int (screen_height_fb s)
      then True
      else pipe_collision_fb (pilot_fb s) (pipes_fb s))"

text \<open>
  \<open>FlappyBirdGame.update\<close> in the source's steps. \<open>spawn\<close> is "add new pipe if needed",
  with \<open>r\<close> the gap centre drawn; \<open>score_loop\<close> is the loop that credits a pipe whose
  trailing edge is exactly at the pilot's x.
\<close>

definition advance_fb :: "FlappyBirdGame \<Rightarrow> bool \<Rightarrow> FlappyBirdGame" where
  "advance_fb s should_jump =
     (let s1 = s\<lparr> frame_count_fb := frame_count_fb s + 1 \<rparr>;
          s2 = (if should_jump then s1\<lparr> pilot_fb := Pilot_jump (pilot_fb s1) \<rparr> else s1);
          s3 = s2\<lparr> pilot_fb := Pilot_update (pilot_fb s2) (gravity_fb s2) \<rparr>
      in s3\<lparr> pipes_fb := map (\<lambda>p. Pipe_update p (pipe_speed_fb s3)) (pipes_fb s3) \<rparr>)"

definition retire :: "FlappyBirdGame \<Rightarrow> FlappyBirdGame" where
  "retire s = s\<lparr> pipes_fb := filter (\<lambda>p. x_position p > - 100) (pipes_fb s) \<rparr>"

definition spawn :: "FlappyBirdGame \<Rightarrow> int \<Rightarrow> py_error + FlappyBirdGame" where
  "spawn s r =
     (if length (pipes_fb s) < 4
      then (let new_x = (if pipes_fb s \<noteq> [] then x_position (last (pipes_fb s)) + 250
                         else of_int (screen_width_fb s))
            in case randint 150 (screen_height_fb s - 150) r of
                 Inl e \<Rightarrow> Inl e
               | Inr gap_center \<Rightarrow>
                   Inr (s\<lparr> pipes_fb := pipes_fb s @ [Pipe_init new_x gap_center 150] \<rparr>))
      else Inr s)"

fun score_loop :: "rat \<Rightarrow> Pipe list \<Rightarrow> int \<Rightarrow> int" where
  "score_loop px [] sc = sc"
| "score_loop px (p # ps) sc =
     (if x_position p + 50 = px then score_loop px ps (sc + 1) else score_loop px ps sc)"

definition update_fb :: "FlappyBirdGame \<Rightarrow> bool \<Rightarrow> int \<Rightarrow> py_error + FlappyBirdGame" where
  "update_fb s should_jump r =
     (if game_over_fb s then Inr s
      else
        case spawn (retire (advance_fb s should_jump)) r of
          Inl e \<Rightarrow> Inl e
        | Inr s6 \<Rightarrow>
            (let s7 = s6\<lparr> score_fb := score_loop (x_pos (pilot_fb s6)) (pipes_fb s6) (score_fb s6) \<rparr>
             in Inr (if check_collision_fb s7 then s7\<lparr> game_over_fb := True \<rparr> else s7)))"

text \<open>
  A sequence of calls of \<open>update\<close>, each with its decision and the gap centre drawn
  should it spawn; an exception ends the sequence.
\<close>

fun updates_fb :: "FlappyBirdGame \<Rightarrow> (bool \<times> int) list \<Rightarrow> py_error + FlappyBirdGame" where
  "updates_fb s [] = Inr s"
| "updates_fb s ((d, r) # rest) =
     (case update_fb s d r of Inl e \<Rightarrow> Inl e | Inr s' \<Rightarrow> updates_fb s' rest)"

section \<open>The specification's formula for the apex rule\<close>

text \<open>
  The specification computes the rise of one jump from the snapshot, where the source
  has the constant \<open>apex_height\<close>. These two definitions follow the specification's
  words and are compared with \<open>minimum_y\<close> below.
\<close>

definition apexRise_spec :: "game_state \<Rightarrow> rat" where
  "apexRise_spec gs = (jumpVelocity (pilot gs))\<^sup>2 / (2 * gravity_gs gs)"

definition minimumY_spec :: "game_state \<Rightarrow> pipe \<Rightarrow> rat" where
  "minimumY_spec gs p =
     (bottomPipe p - (3 / 4) * (bottomPipe p - topPipe p)) + apexRise_spec gs"

section \<open>Concrete engines, levels and snapshots\<close>

text \<open>\<open>GameEngine()\<close> with its defaults, and the level \<open>"simple"\<close> of \<open>levels.py\<close>.\<close>

definition default_engine :: game_engine where
  "default_engine = GameEngine_init 800 600 3 (1 / 2)"

definition simple_level :: level_config where
  "simple_level = \<lparr> floor_cfg = \<lparr> min_floor_cfg = Some 500, max_floor_cfg = Some 600 \<rparr>,
                    pipes_cfg = [\<lparr> xPosition_cfg = 400, gapCenter = 300, gapHeight = 150 \<rparr>] \<rparr>"

text \<open>The default engine two frames into the simple level (floor drawn at 550): a fall, then a jump.\<close>

definition running_engine :: game_engine where
  "running_engine = updates (snd (load_level default_engine simple_level 550)) [False, True]"


text \<open>
  The specification's apex example: a gap centred at 150 and 150 high, far ahead, the
  floor at 600, the pilot at rest at height \<open>y\<close>.
\<close>

definition apex_pipe :: pipe where
  "apex_pipe = \<lparr> xPosition = 400, topPipe = 75, bottomPipe = 225 \<rparr>"

definition apex_example :: "rat \<Rightarrow> game_state" where
  "apex_example y =
     \<lparr> pilot = \<lparr> xPos = 100, yPos = y, height = 30, width = 30, gravity_pilot = 1 / 2,
                 jumpVelocity = - 8, velocity = 0 \<rparr>,
       pipeSpeed = 3, currentPipe = Some apex_pipe, pipeArray = [apex_pipe],
       gravity_gs = 1 / 2, floor_gs = 600 \<rparr>"

text \<open>
  The same gap as a level, loaded into \<open>GameEngine(800, 300, 3, 1)\<close>: gravity 1, the
  pilot starting at 150. \<open>heavy_snapshot\<close> is the snapshot of the first frame.
\<close>

definition apex_level :: level_config where
  "apex_level = \<lparr> floor_cfg = \<lparr> min_floor_cfg = Some 600, max_floor_cfg = Some 600 \<rparr>,
                  pipes_cfg = [\<lparr> xPosition_cfg = 400, gapCenter = 150, gapHeight = 150 \<rparr>] \<rparr>"

definition heavy_snapshot :: game_state where
  "heavy_snapshot = get_game_state (snd (load_level (GameEngine_init 800 300 3 1) apex_level 600))"

text \<open>
  Entries 8 and 9 of the level \<open>"marathon"\<close> (\<open>i = 8\<close> and \<open>i = 9\<close> of its
  comprehension), with that level's floor range.
\<close>

definition marathon_pipe :: "int \<Rightarrow> pipe_config" where
  "marathon_pipe i = \<lparr> xPosition_cfg = 450 + i * 200, gapCenter = 150 + (i mod 10) * 40,
                        gapHeight = 140 + (i mod 5) * 10 \<rparr>"

definition marathon_excerpt :: level_config where
  "marathon_excerpt = \<lparr> floor_cfg = \<lparr> min_floor_cfg = Some 480, max_floor_cfg = Some 580 \<rparr>,
                        pipes_cfg = [marathon_pipe 8, marathon_pipe 9] \<rparr>"

text \<open>Two level tables that the specification calls malformed.\<close>

definition inverted_gap_level :: level_config where
  "inverted_gap_level =
     \<lparr> floor_cfg = \<lparr> min_floor_cfg = Some 500, max_floor_cfg = Some 600 \<rparr>,
       pipes_cfg = [\<lparr> xPosition_cfg = 400, gapCenter = 300, gapHeight = - 20 \<rparr>] \<rparr>"

definition empty_floor_range_level :: level_config where
  "empty_floor_range_level =
     \<lparr> floor_cfg = \<lparr> min_floor_cfg = Some 600, max_floor_cfg = Some 500 \<rparr>,
       pipes_cfg = [\<lparr> xPosition_cfg = 400, gapCenter = 300, gapHeight = 150 \<rparr>] \<rparr>"

text \<open>\<open>FlappyBirdGame()\<close> with its defaults, every gap centre drawn at 300.\<close>

definition sim_start :: FlappyBirdGame where
  "sim_start =
     \<lparr> screen_width_fb = 800, screen_height_fb = 600, pipe_speed_fb = 3, gravity_fb = 1 / 2,
       pilot_fb = Pilot_init 100 300 (1 / 2),
       pipes_fb = [Pipe_init 800 300 150, Pipe_init 1050 300 150,
                   Pipe_init 1300 300 150, Pipe_init 1550 300 150],
       score_fb = 0, frame_count_fb = 0, game_over_fb = False \<rparr>"

section \<open>Cleared and credited pipes\<close>

text \<open>
  The list indices of the pipes whose trailing edge \<open>x + 50\<close> is strictly behind the
  pilot: what \<open>update_score\<close> tests. \<open>cleared_from\<close> is the same set for a list that
  \<open>enumerate\<close> starts counting at \<open>n\<close>.
\<close>

definition cleared_from :: "rat \<Rightarrow> nat \<Rightarrow> pipe list \<Rightarrow> nat set" where
  "cleared_from px n xs = {i. n \<le> i \<and> i < n + length xs \<and> xPosition (xs ! (i - n)) + 50 < px}"

definition cleared :: "game_engine \<Rightarrow> nat set" where
  "cleared g =
     set (map fst (filter (\<lambda>(i, p). xPosition p + 50 < pilot_x g) (enumerate 0 (pipes g))))"


text \<open>
  Pipes in the order of their x, each at least one step of \<open>pipe_speed\<close> behind the
  one before, as in every level of \<open>levels.py\<close> (200 or 250 apart, speed 3).
\<close>

definition spaced :: "game_engine \<Rightarrow> bool" where
  "spaced g \<longleftrightarrow> sorted_wrt (\<lambda>p q. xPosition p + pipe_speed g \<le> xPosition q) (pipes g)"

text \<open>
  A level with two pipes that start behind the pilot, and the default engine loaded
  with it (floor drawn at 550).
\<close>

definition crowded_level :: level_config where
  "crowded_level =
     \<lparr> floor_cfg = \<lparr> min_floor_cfg = Some 500, max_floor_cfg = Some 600 \<rparr>,
       pipes_cfg = [\<lparr> xPosition_cfg = 0, gapCenter = 300, gapHeight = 150 \<rparr>,
                    \<lparr> xPosition_cfg = 10, gapCenter = 300, gapHeight = 150 \<rparr>] \<rparr>"

definition crowded_engine :: game_engine where
  "crowded_engine = snd (load_level default_engine crowded_level 550)"



text \<open>The running engine with a pipe one step before the pilot's x and one 250 further.\<close>

definition passing_engine :: game_engine where
  "passing_engine =
     running_engine\<lparr> pipes := [\<lparr> xPosition = 51, topPipe = 225, bottomPipe = 375 \<rparr>,
                               \<lparr> xPosition = 301, topPipe = 225, bottomPipe = 375 \<rparr>] \<rparr>"

text \<open>The pipes of a \<open>FlappyBirdGame\<close> in strictly increasing order of x.\<close>

definition increasing :: "FlappyBirdGame \<Rightarrow> bool" where
  "increasing s \<longleftrightarrow> sorted_wrt (\<lambda>p q. x_position p < x_position q) (pipes_fb s)"

text \<open>The level \<open>"medium"\<close> of \<open>levels.py\<close>.\<close>

definition medium_level :: level_config where
  "medium_level =
     \<lparr> floor_cfg = \<lparr> min_floor_cfg = Some 480, max_floor_cfg = Some 600 \<rparr>,
       pipes_cfg = [\<lparr> xPosition_cfg = 400, gapCenter = 300, gapHeight = 150 \<rparr>,
                    \<lparr> xPosition_cfg = 650, gapCenter = 250, gapHeight = 150 \<rparr>,
                    \<lparr> xPosition_cfg = 900, gapCenter = 350, gapHeight = 140 \<rparr>,
                    \<lparr> xPosition_cfg = 1150, gapCenter = 280, gapHeight = 160 \<rparr>,
                    \<lparr> xPosition_cfg = 1400, gapCenter = 320, gapHeight = 150 \<rparr>] \<rparr>"

text \<open>
  The track of a \<open>FlappyBirdGame\<close> at its lookahead: four pipes, each 250 after the one
  before, the first not yet at the retirement x.
\<close>

definition lookahead_ok :: "FlappyBirdGame \<Rightarrow> bool" where
  "lookahead_ok s \<longleftrightarrow>
     length (pipes_fb s) = 4
     \<and> - 100 < x_position (hd (pipes_fb s))
     \<and> successively (\<lambda>p q. x_position q = x_position p + 250) (pipes_fb s)"

text \<open>
  The default \<open>FlappyBirdGame\<close> with its four pipes moved left, the first with its
  trailing edge one pixel ahead of the pilot's x.
\<close>

definition sim_near :: FlappyBirdGame where
  "sim_near = sim_start\<lparr> pipes_fb := [Pipe_init 51 300 150, Pipe_init 301 300 150,
                                        Pipe_init 551 300 150, Pipe_init 801 300 150] \<rparr>"

section \<open>Properties\<close>

subsection \<open>The concrete inputs, evaluated\<close>

lemma running_engine_eq:
  "running_engine =
     \<lparr> screen_width = 800, screen_height = 600, pipe_speed = 3, gravity = 1 / 2,
       pilot_x = 100, pilot_y = 293, pilot_width = 30, pilot_height = 30,
       pilot_velocity = - 15 / 2, jump_velocity = - 8, floor_y = 550,
       pipes = [\<lparr> xPosition = 394, topPipe = 225, bottomPipe = 375 \<rparr>],
       score = 0, frame_count = 2, game_over = False, passed_pipes = {},
       autopilot = False \<rparr>"
  by (simp add: running_engine_def default_engine_def simple_level_def load_level_def
      GameEngine_init_def reset_def draw_floor_def randint_def make_pipe_def update_def
      advance_def jump_def move_pipe_def update_score_def check_collision_def
      enumerate_eq_zip Let_def)

lemma sim_start_constructed:
  "FlappyBirdGame_init 800 600 3 (1 / 2) 300 300 300 300 = Inr sim_start"
  by (simp add: FlappyBirdGame_init_def sim_start_def)

lemma heavy_snapshot_eq:
  "heavy_snapshot =
     \<lparr> pilot = \<lparr> xPos = 100, yPos = 150, height = 30, width = 30, gravity_pilot = 1,
                 jumpVelocity = - 8, velocity = 0 \<rparr>,
       pipeSpeed = 3, currentPipe = Some apex_pipe, pipeArray = [apex_pipe],
       gravity_gs = 1, floor_gs = 600 \<rparr>"
  by (simp add: heavy_snapshot_def get_game_state_def load_level_def reset_def draw_floor_def
      apex_level_def randint_def GameEngine_init_def make_pipe_def get_current_pipe_def
      enumerate_eq_zip Let_def apex_pipe_def)

subsection \<open>What each step of a tick leaves alone\<close>

lemma update_score_fields:
  "frame_count (update_score g) = frame_count g"
  "game_over (update_score g) = game_over g"
  "pipes (update_score g) = pipes g"
  "pilot_x (update_score g) = pilot_x g"
  by (simp_all add: update_score_def split: prod.splits)

lemma advance_fields:
  "frame_count (advance g d) = frame_count g + 1"
  "game_over (advance g d) = game_over g"
  "score (advance g d) = score g"
  "passed_pipes (advance g d) = passed_pipes g"
  "pilot_x (advance g d) = pilot_x g"
  "pipe_speed (advance g d) = pipe_speed g"
  "pipes (advance g d) = map (move_pipe (pipe_speed g)) (pipes g)"
  by (simp_all add: advance_def Let_def jump_def)

lemma advance_fb_fields:
  "frame_count_fb (advance_fb s d) = frame_count_fb s + 1"
  "screen_height_fb (advance_fb s d) = screen_height_fb s"
  "game_over_fb (advance_fb s d) = game_over_fb s"
  "score_fb (advance_fb s d) = score_fb s"
  by (simp_all add: advance_fb_def Let_def)

lemma retire_fields:
  "frame_count_fb (retire s) = frame_count_fb s"
  "screen_height_fb (retire s) = screen_height_fb s"
  "game_over_fb (retire s) = game_over_fb s"
  "score_fb (retire s) = score_fb s"
  by (simp_all add: retire_def)

lemma spawn_fields:
  assumes "spawn s r = Inr s'"
  shows "frame_count_fb s' = frame_count_fb s"
    and "game_over_fb s' = game_over_fb s"
    and "score_fb s' = score_fb s"
    and "screen_height_fb s' = screen_height_fb s"
  using assms by (auto simp: spawn_def Let_def randint_def split: if_splits)

lemma spawn_returns: "300 \<le> screen_height_fb s \<Longrightarrow> \<exists>s'. spawn s r = Inr s'"
  by (auto simp: spawn_def Let_def randint_def)

lemma spawn_after_advance:
  assumes "300 \<le> screen_height_fb s"
  obtains s6 where "spawn (retire (advance_fb s d)) r = Inr s6"
proof -
  from assms have "300 \<le> screen_height_fb (retire (advance_fb s d))"
    by (simp add: retire_fields advance_fb_fields)
  then show ?thesis
    using spawn_returns that by blast
qed

subsection \<open>The clock: terminal states and the frame counter\<close>

lemma update_terminal: "game_over g \<Longrightarrow> update g d = g"
  by (simp add: update_def)

lemma updates_terminal: "game_over g \<Longrightarrow> updates g ds = g"
  by (induction ds) (simp_all add: update_terminal)

lemma update_frame: "\<not> game_over g \<Longrightarrow> frame_count (update g d) = frame_count g + 1"
  by (simp add: update_def Let_def update_score_fields advance_fields)

lemma update_fb_terminal: "game_over_fb s \<Longrightarrow> update_fb s d r = Inr s"
  by (simp add: update_fb_def)

lemma updates_fb_terminal: "game_over_fb s \<Longrightarrow> updates_fb s drs = Inr s"
  by (induction drs) (auto simp: update_fb_terminal)

lemma update_fb_frame:
  assumes "\<not> game_over_fb s" and "300 \<le> screen_height_fb s"
  shows "\<exists>s'. update_fb s d r = Inr s' \<and> frame_count_fb s' = frame_count_fb s + 1"
proof -
  obtain s6 where s6: "spawn (retire (advance_fb s d)) r = Inr s6"
    using spawn_after_advance [OF assms(2)] by blast
  then have "frame_count_fb s6 = frame_count_fb s + 1"
    using spawn_fields(1) [OF s6] by (simp add: retire_fields advance_fb_fields)
  with s6 assms(1) show ?thesis
    by (simp add: update_fb_def Let_def)
qed

text \<open>
  C1. In a terminal state a tick changes no field, whatever the decision, and so does
  any further sequence of ticks: the state, with its terminal flag, stays as it is. In
  a running state a tick adds exactly 1 to the frame counter. Both hold for
  \<open>GameEngine.update\<close> and for \<open>FlappyBirdGame.update\<close>; the latter returns on every
  screen at least 300 high, the only ones its constructor accepts.
\<close>

theorem tick_terminal_frozen_frame_step:
  "(game_over g \<longrightarrow> update g d = g \<and> updates g ds = g \<and> game_over (updates g ds))
   \<and> (\<not> game_over g \<longrightarrow> frame_count (update g d) = frame_count g + 1)
   \<and> (game_over_fb s \<longrightarrow> update_fb s d r = Inr s \<and> updates_fb s drs = Inr s)
   \<and> (\<not> game_over_fb s \<and> 300 \<le> screen_height_fb s \<longrightarrow>
        (\<exists>s'. update_fb s d r = Inr s' \<and> frame_count_fb s' = frame_count_fb s + 1))"
  using update_terminal updates_terminal update_frame update_fb_terminal updates_fb_terminal
    update_fb_frame by simp

theorem tick_terminal_frozen_frame_step_witness:
  "update (running_engine\<lparr> game_over := True \<rparr>) True = running_engine\<lparr> game_over := True \<rparr>
   \<and> updates (running_engine\<lparr> game_over := True \<rparr>) [True, False]
       = running_engine\<lparr> game_over := True \<rparr>
   \<and> frame_count running_engine = 2
   \<and> frame_count (update running_engine True) = 3
   \<and> updates_fb (sim_start\<lparr> game_over_fb := True \<rparr>) [(True, 300), (False, 200)]
       = Inr (sim_start\<lparr> game_over_fb := True \<rparr>)
   \<and> (\<exists>s'. update_fb sim_start True 300 = Inr s' \<and> frame_count_fb s' = 1)"
proof -
  let ?g = "running_engine\<lparr> game_over := True \<rparr>"
  let ?s = "sim_start\<lparr> game_over_fb := True \<rparr>"
  have stopped: "game_over ?g" "game_over_fb ?s"
    by simp_all
  have running: "\<not> game_over running_engine" "\<not> game_over_fb sim_start"
    "300 \<le> screen_height_fb sim_start" "frame_count running_engine = 2"
    "frame_count_fb sim_start = 0"
    by (simp_all add: running_engine_eq sim_start_def)
  have "update ?g True = ?g \<and> updates ?g [True, False] = ?g
        \<and> updates_fb ?s [(True, 300), (False, 200)] = Inr ?s"
    using stopped
      tick_terminal_frozen_frame_step
        [where g = ?g and d = True and ds = "[True, False]" and s = ?s and r = 300
           and drs = "[(True, 300), (False, 200)]"]
    by blast
  moreover
  have "frame_count (update running_engine True) = frame_count running_engine + 1
        \<and> (\<exists>s'. update_fb sim_start True 300 = Inr s'
               \<and> frame_count_fb s' = frame_count_fb sim_start + 1)"
    using running(1-3)
      tick_terminal_frozen_frame_step
        [where g = running_engine and d = True and ds = "[]" and s = sim_start
           and r = 300 and drs = "[]"]
    by blast
  ultimately show ?thesis
    using running(4,5) by (simp del: updates.simps updates_fb.simps)
qed



subsection \<open>The decision policy\<close>



text \<open>
  C3, as the specification states it, fails: the rise of one jump is not computed from
  the snapshot. In the first frame of \<open>apex_level\<close> under gravity 1 the target gap is
  centred above the midline, neither the floor rule nor the emergency rule fires, the
  specification's \<open>minimumY\<close> is 144.5, well above the floor, and the pilot at 150 is
  below it; yet \<open>shouldJump\<close> answers false.
\<close>

theorem apex_rise_formula_counterexample:
  "currentPipe heavy_snapshot = Some apex_pipe
   \<and> (topPipe apex_pipe + bottomPipe apex_pipe) / 2 \<le> 300
   \<and> \<not> floor_rule heavy_snapshot
   \<and> \<not> emergency_rule heavy_snapshot
   \<and> minimumY_spec heavy_snapshot apex_pipe = 289 / 2
   \<and> minimumY_spec heavy_snapshot apex_pipe < floor_gs heavy_snapshot - 20
   \<and> yPos (pilot heavy_snapshot) \<ge> minimumY_spec heavy_snapshot apex_pipe
   \<and> \<not> shouldJump heavy_snapshot"
  by (simp add: heavy_snapshot_eq apex_pipe_def floor_rule_def emergency_rule_def
      minimumY_spec_def apexRise_spec_def shouldJump_def pipe_strategy_def minimum_y_def
      pilot_bottom_next_frame_def safety_margin_def SCREEN_CENTER_def apex_height_def Let_def)

lemma minimum_y_defaults:
  assumes "jumpVelocity (pilot gs) = - 8" and "gravity_gs gs = 1 / 2"
  shows "minimum_y p = minimumY_spec gs p"
proof -
  have "apexRise_spec gs = 64"
    unfolding apexRise_spec_def assms by simp
  then show ?thesis
    by (simp add: minimum_y_def minimumY_spec_def apex_height_def Let_def)
qed

text \<open>
  C3, amended. With a target pipe whose gap centre is at most the constant 300, the
  floor and emergency rules silent and \<open>minimum_y\<close> below \<open>floor - 20\<close>, \<open>shouldJump\<close>
  is true exactly when the pilot's y is at least \<open>minimum_y\<close>, where \<open>minimum_y\<close> is
  \<open>gapBottom - 0.75 gapHeight\<close> plus the constant 64. The constant is the
  specification's \<open>jumpImpulse\<^sup>2 / (2 gravity)\<close> at the defaults, jump velocity -8 and
  gravity one half. In the specification's example \<open>minimum_y\<close> is 176.5, the pilot at
  200 jumps and the pilot at 100 does not.
\<close>

theorem apex_rule_fixed_rise:
  assumes "currentPipe gs = Some p"
    and "(topPipe p + bottomPipe p) / 2 \<le> 300"
    and "\<not> floor_rule gs" and "\<not> emergency_rule gs"
    and "minimum_y p < floor_gs gs - 20"
  shows "(shouldJump gs \<longleftrightarrow> yPos (pilot gs) \<ge> minimum_y p)
         \<and> minimum_y p = (bottomPipe p - (3 / 4) * (bottomPipe p - topPipe p)) + 64
         \<and> (jumpVelocity (pilot gs) = - 8 \<and> gravity_gs gs = 1 / 2
              \<longrightarrow> minimum_y p = minimumY_spec gs p)"
proof -
  have "shouldJump gs \<longleftrightarrow> yPos (pilot gs) \<ge> minimum_y p"
    using assms by (simp add: shouldJump_def pipe_strategy_def SCREEN_CENTER_def Let_def)
  moreover
  have "minimum_y p = (bottomPipe p - (3 / 4) * (bottomPipe p - topPipe p)) + 64"
    by (simp add: minimum_y_def apex_height_def Let_def)
  ultimately show ?thesis
    using minimum_y_defaults [of gs p] by blast
qed

theorem apex_rule_fixed_rise_witness:
  "minimum_y apex_pipe = 353 / 2
   \<and> minimumY_spec (apex_example 200) apex_pipe = 353 / 2
   \<and> shouldJump (apex_example 200)
   \<and> \<not> shouldJump (apex_example 100)"
proof -
  have m: "minimum_y apex_pipe = 353 / 2"
    by (simp add: minimum_y_def apex_pipe_def apex_height_def Let_def)
  have pre: "currentPipe (apex_example y) = Some apex_pipe"
    "(topPipe apex_pipe + bottomPipe apex_pipe) / 2 \<le> 300"
    "minimum_y apex_pipe < floor_gs (apex_example y) - 20" for y
    by (simp_all add: m) (simp_all add: apex_example_def apex_pipe_def)
  have free: "\<not> floor_rule (apex_example 200)" "\<not> emergency_rule (apex_example 200)"
    "\<not> floor_rule (apex_example 100)" "\<not> emergency_rule (apex_example 100)"
    by (simp_all add: apex_example_def apex_pipe_def floor_rule_def emergency_rule_def
        pilot_bottom_next_frame_def safety_margin_def Let_def)
  have defaults: "jumpVelocity (pilot (apex_example 200)) = - 8"
    "gravity_gs (apex_example 200) = 1 / 2"
    by (simp_all add: apex_example_def)
  have "(shouldJump (apex_example 200)
          \<longleftrightarrow> yPos (pilot (apex_example 200)) \<ge> minimum_y apex_pipe)
        \<and> minimum_y apex_pipe = minimumY_spec (apex_example 200) apex_pipe"
    using apex_rule_fixed_rise [OF pre(1) pre(2) free(1) free(2) pre(3)] defaults by simp
  moreover
  have "shouldJump (apex_example 100)
          \<longleftrightarrow> yPos (pilot (apex_example 100)) \<ge> minimum_y apex_pipe"
    using apex_rule_fixed_rise [OF pre(1) pre(2) free(3) free(4) pre(3)] by simp
  ultimately show ?thesis
    by (simp add: m) (simp add: apex_example_def)
qed

subsection \<open>The collision predicate\<close>

lemma pipe_collision_iff:
  "pipe_collision g ps \<longleftrightarrow>
     (\<exists>p \<in> set ps. xPosition p < pilot_x g + pilot_width g \<and> xPosition p + 50 > pilot_x g
        \<and> (pilot_y g < topPipe p \<or> pilot_y g + pilot_height g > bottomPipe p))"
  by (induction ps) auto

lemma pipe_collision_fb_iff:
  "pipe_collision_fb pl ps \<longleftrightarrow>
     (\<exists>p \<in> set ps. x_position p < x_pos pl + width_Pilot pl \<and> x_position p + 50 > x_pos pl
        \<and> (y_pos pl < of_int (top_pipe p) \<or> y_pos pl + height_Pilot pl > of_int (bottom_pipe p)))"
  by (induction ps) auto

lemma check_collision_update_score: "check_collision (update_score g) = check_collision g"
  by (simp add: check_collision_def update_score_def pipe_collision_iff split: prod.splits)

lemma check_collision_flag: "check_collision (g\<lparr> game_over := b \<rparr>) = check_collision g"
  by (simp add: check_collision_def pipe_collision_iff)

lemma check_collision_fb_flag:
  "check_collision_fb (s\<lparr> game_over_fb := b \<rparr>) = check_collision_fb s"
  by (simp add: check_collision_fb_def)

lemma update_game_over:
  assumes "\<not> game_over g"
  shows "game_over (update g d) = check_collision (advance g d)"
    and "game_over (update g d) = check_collision (update g d)"
  using assms
  by (simp_all add: update_def Let_def check_collision_update_score check_collision_flag
      update_score_fields advance_fields)

lemma update_fb_collision:
  assumes "\<not> game_over_fb s" and "300 \<le> screen_height_fb s"
  shows "\<exists>s'. update_fb s d r = Inr s' \<and> (game_over_fb s' \<longleftrightarrow> check_collision_fb s')"
proof -
  obtain s6 where s6: "spawn (retire (advance_fb s d)) r = Inr s6"
    using spawn_after_advance [OF assms(2)] by blast
  have "\<not> game_over_fb s6"
    using spawn_fields(2) [OF s6] assms(1) by (simp add: retire_fields advance_fb_fields)
  with s6 assms(1) show ?thesis
    by (simp add: update_fb_def Let_def check_collision_fb_flag)
qed

text \<open>
  C4. The collision predicate of \<open>GameEngine\<close> is true exactly when the pilot's y is at
  most 0, or its bottom edge \<open>y + height\<close> reaches the floor of the loaded level, or
  some pipe whose span \<open>[x, x + 50]\<close> overlaps the pilot's span \<open>[x, x + width]\<close> has the
  pilot above the gap's top or its bottom edge below the gap's bottom. A tick of a
  running engine evaluates it after the integration and the pipes' move and sets the
  terminal flag exactly when it holds. \<open>FlappyBirdGame\<close> has the same predicate with
  the screen's height as its floor, and its tick sets the flag in the same way.
\<close>

theorem collision_predicate:
  "(check_collision g \<longleftrightarrow>
      pilot_y g \<le> 0
      \<or> pilot_y g + pilot_height g \<ge> of_int (floor_y g)
      \<or> (\<exists>p \<in> set (pipes g).
            xPosition p < pilot_x g + pilot_width g \<and> xPosition p + 50 > pilot_x g
            \<and> (pilot_y g < topPipe p \<or> pilot_y g + pilot_height g > bottomPipe p)))
   \<and> (\<not> game_over g \<longrightarrow>
         game_over (update g d) = check_collision (advance g d)
         \<and> game_over (update g d) = check_collision (update g d))
   \<and> (check_collision_fb s \<longleftrightarrow>
        y_pos (pilot_fb s) \<le> 0
        \<or> y_pos (pilot_fb s) + height_Pilot (pilot_fb s) \<ge> of_int (screen_height_fb s)
        \<or> (\<exists>p \<in> set (pipes_fb s).
              x_position p < x_pos (pilot_fb s) + width_Pilot (pilot_fb s)
              \<and> x_position p + 50 > x_pos (pilot_fb s)
              \<and> (y_pos (pilot_fb s) < of_int (top_pipe p)
                  \<or> y_pos (pilot_fb s) + height_Pilot (pilot_fb s) > of_int (bottom_pipe p))))
   \<and> (\<not> game_over_fb s \<and> 300 \<le> screen_height_fb s \<longrightarrow>
        (\<exists>s'. update_fb s d r = Inr s' \<and> (game_over_fb s' \<longleftrightarrow> check_collision_fb s')))"
proof -
  have a: "check_collision g \<longleftrightarrow>
      pilot_y g \<le> 0
      \<or> pilot_y g + pilot_height g \<ge> of_int (floor_y g)
      \<or> (\<exists>p \<in> set (pipes g).
            xPosition p < pilot_x g + pilot_width g \<and> xPosition p + 50 > pilot_x g
            \<and> (pilot_y g < topPipe p \<or> pilot_y g + pilot_height g > bottomPipe p))"
    by (simp add: check_collision_def pipe_collision_iff)
  have b: "check_collision_fb s \<longleftrightarrow>
        y_pos (pilot_fb s) \<le> 0
        \<or> y_pos (pilot_fb s) + height_Pilot (pilot_fb s) \<ge> of_int (screen_height_fb s)
        \<or> (\<exists>p \<in> set (pipes_fb s).
              x_position p < x_pos (pilot_fb s) + width_Pilot (pilot_fb s)
              \<and> x_position p + 50 > x_pos (pilot_fb s)
              \<and> (y_pos (pilot_fb s) < of_int (top_pipe p)
                  \<or> y_pos (pilot_fb s) + height_Pilot (pilot_fb s) > of_int (bottom_pipe p)))"
    by (simp add: check_collision_fb_def pipe_collision_fb_iff)
  show ?thesis
    using a b update_game_over update_fb_collision by blast
qed

theorem collision_predicate_witness:
  "\<not> check_collision running_engine
   \<and> \<not> game_over (update running_engine False)
   \<and> check_collision (advance (running_engine\<lparr> pilot_y := 530 \<rparr>) False)
   \<and> game_over (update (running_engine\<lparr> pilot_y := 530 \<rparr>) False)
   \<and> \<not> check_collision_fb sim_start
   \<and> (\<exists>s'. update_fb sim_start False 300 = Inr s' \<and> game_over_fb s' = check_collision_fb s')"
proof -
  let ?low = "running_engine\<lparr> pilot_y := 530 \<rparr>"
  have running: "\<not> game_over running_engine" "\<not> game_over ?low"
    "\<not> game_over_fb sim_start" "300 \<le> screen_height_fb sim_start"
    by (simp_all add: running_engine_eq sim_start_def)
  have still: "\<not> check_collision running_engine"
    "\<not> check_collision (advance running_engine False)"
    "check_collision (advance ?low False)"
    by (simp_all add: running_engine_eq check_collision_def advance_def move_pipe_def Let_def)
  have fb: "\<not> check_collision_fb sim_start"
    by (simp add: sim_start_def check_collision_fb_def Pilot_init_def Pipe_init_def)
  have a: "\<exists>s'. update_fb sim_start False 300 = Inr s'
            \<and> game_over_fb s' = check_collision_fb s'"
    using running(3,4)
      collision_predicate [where g = running_engine and d = False and s = sim_start and r = 300]
    by blast
  have b: "game_over (update running_engine False) = check_collision (advance running_engine False)"
    using running(1)
      collision_predicate [where g = running_engine and d = False and s = sim_start and r = 300]
    by blast
  have c: "game_over (update ?low False) = check_collision (advance ?low False)"
    using running(2)
      collision_predicate [where g = ?low and d = False and s = sim_start and r = 300]
    by blast
  show ?thesis
    using still fb a b c by blast
qed

subsection \<open>Loading a level\<close>

text \<open>
  C7, as the specification states it, fails: the clip is against the floor itself, not
  against \<open>floor - 10\<close>. Entry 8 of the marathon level has its gap bottom at 555; with
  the floor drawn at 560 that is beyond \<open>floor - 10 = 550\<close>, and the gap is loaded
  unshifted.
\<close>

theorem gap_clip_threshold_counterexample:
  "gapCenter (marathon_pipe 8) + gapHeight (marathon_pipe 8) div 2 = 555
   \<and> (555 :: int) > 560 - 10
   \<and> load_level default_engine marathon_excerpt 560 =
       (None, default_engine\<lparr> floor_y := 560,
                pipes := [\<lparr> xPosition = 2050, topPipe = 385, bottomPipe = 555 \<rparr>,
                          \<lparr> xPosition = 2250, topPipe = 370, bottomPipe = 550 \<rparr>] \<rparr>)"
  by (simp add: marathon_pipe_def marathon_excerpt_def default_engine_def load_level_def
      GameEngine_init_def reset_def draw_floor_def randint_def make_pipe_def Let_def)

text \<open>
  C7, amended. On load every descriptor becomes a pipe with
  \<open>gapTop = gapCenter - gapHeight // 2\<close> and \<open>gapBottom = gapCenter + gapHeight // 2\<close>
  (integer floor division); when that \<open>gapBottom\<close> is strictly greater than the floor
  drawn, the gap is moved up to \<open>gapBottom = floor - 10\<close> and
  \<open>gapTop = floor - 10 - gapHeight\<close>, and otherwise it is kept as computed. A successful
  load holds exactly these pipes, in the order of the descriptors.
\<close>

theorem gap_clip_at_floor:
  "topPipe (make_pipe fl pc) =
      of_int (if gapCenter pc + gapHeight pc div 2 > fl then fl - 10 - gapHeight pc
              else gapCenter pc - gapHeight pc div 2)
   \<and> bottomPipe (make_pipe fl pc) =
      of_int (if gapCenter pc + gapHeight pc div 2 > fl then fl - 10
              else gapCenter pc + gapHeight pc div 2)
   \<and> xPosition (make_pipe fl pc) = of_int (xPosition_cfg pc)
   \<and> (load_level g cfg r = (None, g') \<longrightarrow>
        pipes g' = map (make_pipe (floor_y g')) (pipes_cfg cfg))"
  by (auto simp: make_pipe_def Let_def load_level_def reset_def split: sum.splits)

theorem gap_clip_at_floor_witness:
  "load_level default_engine marathon_excerpt 560 =
     (None, default_engine\<lparr> floor_y := 560,
              pipes := map (make_pipe 560) [marathon_pipe 8, marathon_pipe 9] \<rparr>)
   \<and> bottomPipe (make_pipe 560 (marathon_pipe 8)) = 555
   \<and> topPipe (make_pipe 560 (marathon_pipe 8)) = 385
   \<and> bottomPipe (make_pipe 560 (marathon_pipe 9)) = 550
   \<and> topPipe (make_pipe 560 (marathon_pipe 9)) = 370"
proof -
  let ?g' = "default_engine\<lparr> floor_y := 560,
               pipes := map (make_pipe 560) [marathon_pipe 8, marathon_pipe 9] \<rparr>"
  have loaded: "load_level default_engine marathon_excerpt 560 = (None, ?g')"
    by (simp add: marathon_excerpt_def default_engine_def load_level_def
        GameEngine_init_def reset_def draw_floor_def randint_def Let_def)
  have "pipes ?g' = map (make_pipe (floor_y ?g')) (pipes_cfg marathon_excerpt)"
    using loaded
      gap_clip_at_floor [where g = default_engine and cfg = marathon_excerpt and r = 560
        and g' = ?g' and fl = 560 and pc = "marathon_pipe 8"]
    by blast
  moreover
  have "bottomPipe (make_pipe 560 (marathon_pipe 8)) = 555
        \<and> topPipe (make_pipe 560 (marathon_pipe 8)) = 385"
    using gap_clip_at_floor [where fl = 560 and pc = "marathon_pipe 8"
        and g = default_engine and cfg = marathon_excerpt and r = 560 and g' = ?g']
    by (simp add: marathon_pipe_def)
  moreover
  have "bottomPipe (make_pipe 560 (marathon_pipe 9)) = 550
        \<and> topPipe (make_pipe 560 (marathon_pipe 9)) = 370"
    using gap_clip_at_floor [where fl = 560 and pc = "marathon_pipe 9"
        and g = default_engine and cfg = marathon_excerpt and r = 560 and g' = ?g']
    by (simp add: marathon_pipe_def)
  ultimately show ?thesis
    using loaded by simp
qed

text \<open>
  C9, as the specification states it, fails: \<open>load_level\<close> validates nothing. A
  descriptor with gap height -20 is loaded into the running engine, as a pipe whose
  gap top 310 lies below its gap bottom 290; and a floor range with \<open>min > max\<close> does
  raise, but only after \<open>reset\<close> has run, so the running engine (frame 2) is left
  reset (frame 0), not unchanged.
\<close>

theorem load_not_validated_counterexample:
  "load_level running_engine inverted_gap_level 550 =
     (None, (reset running_engine)\<lparr> floor_y := 550,
              pipes := [\<lparr> xPosition = 400, topPipe = 310, bottomPipe = 290 \<rparr>] \<rparr>)
   \<and> load_level running_engine empty_floor_range_level 550 = (Some ValueError, reset running_engine)
   \<and> frame_count running_engine = 2
   \<and> frame_count (reset running_engine) = 0
   \<and> reset running_engine \<noteq> running_engine"
proof -
  have "frame_count running_engine = 2" "frame_count (reset running_engine) = 0"
    by (simp_all add: running_engine_eq reset_def)
  moreover from this have "reset running_engine \<noteq> running_engine"
    by auto
  moreover
  have "load_level running_engine inverted_gap_level 550 =
     (None, (reset running_engine)\<lparr> floor_y := 550,
              pipes := [\<lparr> xPosition = 400, topPipe = 310, bottomPipe = 290 \<rparr>] \<rparr>)"
    "load_level running_engine empty_floor_range_level 550 = (Some ValueError, reset running_engine)"
    by (simp_all add: inverted_gap_level_def empty_floor_range_level_def
        load_level_def reset_def draw_floor_def randint_def make_pipe_def Let_def)
  ultimately show ?thesis
    by blast
qed

text \<open>
  C9, amended. \<open>load_level\<close> checks no descriptor. When the floor range has
  \<open>min \<le> max\<close> the load succeeds whatever the gap heights are: the engine is reset,
  the floor is the integer drawn and every descriptor is loaded as a pipe. When
  \<open>min > max\<close> the draw raises \<open>ValueError\<close> and the engine is left reset: pilot
  re-centred, track emptied, score and frame 0, not terminal, with its floor and
  configuration as before.
\<close>

theorem load_level_unvalidated:
  assumes "min_floor_cfg (floor_cfg cfg) = Some lo" and "max_floor_cfg (floor_cfg cfg) = Some hi"
  shows "(lo \<le> hi \<longrightarrow>
            load_level g cfg r =
              (None, (reset g)\<lparr> floor_y := r, pipes := map (make_pipe r) (pipes_cfg cfg) \<rparr>))
         \<and> (lo > hi \<longrightarrow> load_level g cfg r = (Some ValueError, reset g))"
  using assms by (simp add: load_level_def draw_floor_def randint_def Let_def reset_def)

theorem load_level_unvalidated_witness:
  "load_level running_engine inverted_gap_level 550 =
     (None, (reset running_engine)\<lparr> floor_y := 550,
              pipes := map (make_pipe 550) (pipes_cfg inverted_gap_level) \<rparr>)
   \<and> load_level running_engine empty_floor_range_level 550 = (Some ValueError, reset running_engine)"
proof -
  have a: "min_floor_cfg (floor_cfg inverted_gap_level) = Some 500"
    "max_floor_cfg (floor_cfg inverted_gap_level) = Some 600"
    by (simp_all add: inverted_gap_level_def)
  have b: "min_floor_cfg (floor_cfg empty_floor_range_level) = Some 600"
    "max_floor_cfg (floor_cfg empty_floor_range_level) = Some 500"
    by (simp_all add: empty_floor_range_level_def)
  show ?thesis
    using load_level_unvalidated [OF a, of running_engine 550]
      load_level_unvalidated [OF b, of running_engine 550]
    by simp
qed

subsection \<open>The score\<close>

lemma cleared_from_Nil: "cleared_from px n [] = {}"
  by (auto simp: cleared_from_def)

lemma cleared_from_Cons:
  "cleared_from px n (x # xs) =
     (if xPosition x + 50 < px then insert n (cleared_from px (Suc n) xs)
      else cleared_from px (Suc n) xs)"
proof -
  have *: "i \<in> cleared_from px n (x # xs) \<longleftrightarrow>
        (i = n \<and> xPosition x + 50 < px) \<or> i \<in> cleared_from px (Suc n) xs" for i
  proof (cases "i = n")
    case True
    then show ?thesis by (simp add: cleared_from_def)
  next
    case False
    show ?thesis
    proof (cases "n < i")
      case True
      then obtain k where k: "i = Suc n + k"
        by (metis add_Suc less_iff_Suc_add)
      then show ?thesis by (simp add: cleared_from_def)
    next
      case False
      with \<open>i \<noteq> n\<close> show ?thesis by (simp add: cleared_from_def)
    qed
  qed
  show ?thesis
    using * by auto
qed

lemma cleared_from_finite: "finite (cleared_from px n xs)"
  by (simp add: cleared_from_def)

lemma cleared_from_lower: "i \<in> cleared_from px n xs \<Longrightarrow> n \<le> i"
  by (simp add: cleared_from_def)

lemma update_score_loop_enumerate:
  "update_score_loop px (enumerate n xs) (sc, pp) =
     (sc + int (card (cleared_from px n xs - pp)), pp \<union> cleared_from px n xs)"
proof (induction xs arbitrary: n sc pp)
  case Nil
  then show ?case by (simp add: cleared_from_Nil)
next
  case (Cons x xs)
  let ?C' = "cleared_from px (Suc n) xs"
  have notin: "n \<notin> ?C'"
    using cleared_from_lower by fastforce
  have fin: "finite (?C' - pp)"
    by (simp add: cleared_from_finite)
  show ?case
  proof (cases "xPosition x + 50 < px \<and> n \<notin> pp")
    case True
    have "insert n ?C' - pp = insert n (?C' - pp)"
      using True by auto
    moreover have "?C' - insert n pp = ?C' - pp"
      using notin by auto
    moreover have "n \<notin> ?C' - pp"
      using notin by simp
    ultimately show ?thesis
      using True fin by (simp add: Cons.IH cleared_from_Cons)
  next
    case False
    have step: "update_score_loop px (enumerate n (x # xs)) (sc, pp)
                = update_score_loop px (enumerate (Suc n) xs) (sc, pp)"
      using False by auto
    have "cleared_from px n (x # xs) - pp = ?C' - pp"
      using False by (auto simp: cleared_from_Cons)
    moreover have "pp \<union> cleared_from px n (x # xs) = pp \<union> ?C'"
      using False by (auto simp: cleared_from_Cons)
    ultimately show ?thesis
      unfolding step Cons.IH by simp
  qed
qed

lemma cleared_iff:
  "i \<in> cleared g \<longleftrightarrow> i < length (pipes g) \<and> xPosition (pipes g ! i) + 50 < pilot_x g"
  by (force simp: cleared_def in_set_enumerate_eq)

lemma cleared_eq_from: "cleared g = cleared_from (pilot_x g) 0 (pipes g)"
  by (auto simp: cleared_iff cleared_from_def)

lemma finite_cleared: "finite (cleared g)"
  by (simp add: cleared_def)

lemma update_score_eq:
  "update_score g =
     g\<lparr> score := score g + int (card (cleared g - passed_pipes g)),
        passed_pipes := passed_pipes g \<union> cleared g \<rparr>"
  by (simp add: update_score_def update_score_loop_enumerate cleared_eq_from)

lemma cleared_update_score: "cleared (update_score g) = cleared g"
  by (simp add: cleared_def update_score_eq)


lemma cleared_flag: "cleared (g\<lparr> game_over := b \<rparr>) = cleared g"
  by (simp add: cleared_def)








lemma crowded_engine_eq:
  "crowded_engine =
     default_engine\<lparr> floor_y := 550,
        pipes := [\<lparr> xPosition = 0, topPipe = 225, bottomPipe = 375 \<rparr>,
                  \<lparr> xPosition = 10, topPipe = 225, bottomPipe = 375 \<rparr>] \<rparr>"
  by (simp add: crowded_engine_def crowded_level_def default_engine_def load_level_def
      GameEngine_init_def reset_def draw_floor_def randint_def make_pipe_def Let_def)





subsection \<open>The score over ticks\<close>

lemma score_update_mono: "score g \<le> score (update g d)"
  by (simp add: update_def Let_def update_score_eq advance_fields)

lemma score_updates_mono: "score g \<le> score (updates g ds)"
proof (induction ds arbitrary: g)
  case Nil
  then show ?case by simp
next
  case (Cons d ds)
  have "score g \<le> score (update g d)" by (rule score_update_mono)
  also have "\<dots> \<le> score (updates (update g d) ds)" by (rule Cons.IH)
  finally show ?case by simp
qed

lemma newly_cleared_at_most_one:
  assumes "spaced g" and "cleared g \<subseteq> passed_pipes g"
  shows "card (cleared (advance g d) - passed_pipes g) \<le> 1"
proof -
  let ?N = "cleared (advance g d) - passed_pipes g"
  have fin: "finite ?N"
    by (simp add: finite_cleared)
  have no_pair: False if "i \<in> ?N" "j \<in> ?N" "i < j" for i j
  proof -
    from that have "i \<in> cleared (advance g d)" and "i \<notin> cleared g"
      using assms(2) by auto
    then have i: "i < length (pipes g)" "\<not> xPosition (pipes g ! i) + 50 < pilot_x g"
      by (simp_all add: cleared_iff advance_fields)
    from that have j: "j < length (pipes g)"
      "xPosition (pipes g ! j) - pipe_speed g + 50 < pilot_x g"
      by (auto simp: cleared_iff advance_fields move_pipe_def)
    have "xPosition (pipes g ! i) + pipe_speed g \<le> xPosition (pipes g ! j)"
      using assms(1) \<open>i < j\<close> j(1) by (simp add: spaced_def sorted_wrt_iff_nth_less)
    with i(2) j(2) show False by simp
  qed
  have "\<forall>a\<in>?N. \<forall>b\<in>?N. a = b"
  proof (intro ballI)
    fix a b assume "a \<in> ?N" "b \<in> ?N"
    then show "a = b"
      using no_pair [of a b] no_pair [of b a] by (cases a b rule: linorder_cases) auto
  qed
  then have "card ?N \<le> Suc 0"
    using fin by (simp add: card_le_Suc0_iff_eq)
  then show ?thesis by simp
qed

lemma cleared_update_settled:
  assumes "\<not> game_over g"
  shows "cleared (update g d) \<subseteq> passed_pipes (update g d)"
  using assms
  by (simp add: update_def Let_def cleared_flag cleared_update_score)
     (simp add: update_score_eq)

lemma sorted_wrt_move_pipe:
  "sorted_wrt (\<lambda>p q. xPosition p + s \<le> xPosition q) (map (move_pipe v) ps)
   = sorted_wrt (\<lambda>p q. xPosition p + s \<le> xPosition q) ps"
proof -
  have "(\<lambda>p q. xPosition (move_pipe v p) + s \<le> xPosition (move_pipe v q))
        = (\<lambda>p q. xPosition p + s \<le> xPosition q)"
    by (auto simp: move_pipe_def fun_eq_iff)
  then show ?thesis
    by (simp add: sorted_wrt_map)
qed

lemma spaced_update: "spaced g \<Longrightarrow> spaced (update g d)"
  by (simp add: update_def Let_def spaced_def update_score_eq advance_fields
      sorted_wrt_move_pipe)

lemma update_step_bound:
  assumes "spaced g" and "cleared g \<subseteq> passed_pipes g"
  shows "score (update g d) \<le> score g + 1"
    and "cleared (update g d) \<subseteq> passed_pipes (update g d)"
proof -
  show "score (update g d) \<le> score g + 1"
    using newly_cleared_at_most_one [OF assms, of d]
    by (simp add: update_def Let_def update_score_eq advance_fields)
  show "cleared (update g d) \<subseteq> passed_pipes (update g d)"
  proof (cases "game_over g")
    case True
    then show ?thesis using assms(2) by (simp add: update_def)
  next
    case False
    then show ?thesis by (rule cleared_update_settled)
  qed
qed

lemma score_loop_count:
  "score_loop px ps sc = sc + int (length (filter (\<lambda>p. x_position p + 50 = px) ps))"
  by (induction ps arbitrary: sc) simp_all

lemma increasing_filter_le_one:
  assumes "sorted_wrt (\<lambda>p q. x_position p < x_position q) ps"
  shows "length (filter (\<lambda>p. x_position p + 50 = px) ps) \<le> 1"
  using assms
proof (induction ps)
  case Nil
  then show ?case by simp
next
  case (Cons p ps)
  show ?case
  proof (cases "x_position p + 50 = px")
    case True
    have "filter (\<lambda>q. x_position q + 50 = px) ps = []"
      using Cons.prems True by (auto simp: filter_empty_conv)
    with True show ?thesis by simp
  next
    case False
    with Cons show ?thesis by simp
  qed
qed

lemma increasing_le_last:
  assumes "sorted_wrt (\<lambda>p q. x_position p < x_position q) ps" and "p \<in> set ps"
  shows "x_position p \<le> x_position (last ps)"
  using assms
proof (induction ps)
  case Nil
  then show ?case by simp
next
  case (Cons q ps)
  show ?case
  proof (cases "ps = []")
    case True
    with Cons.prems show ?thesis by simp
  next
    case False
    then have l: "last ps \<in> set ps" by simp
    show ?thesis
    proof (cases "p = q")
      case True
      have "x_position q < x_position (last ps)"
        using Cons.prems(1) l by simp
      with True \<open>ps \<noteq> []\<close> show ?thesis by simp
    next
      case False
      with Cons \<open>ps \<noteq> []\<close> show ?thesis by simp
    qed
  qed
qed

lemma increasing_advance_fb: "increasing s \<Longrightarrow> increasing (advance_fb s d)"
  by (simp add: increasing_def advance_fb_def Let_def sorted_wrt_map Pipe_update_def)

lemma increasing_retire: "increasing s \<Longrightarrow> increasing (retire s)"
  by (simp add: increasing_def retire_def sorted_wrt_filter)

lemma increasing_spawn:
  assumes "increasing s" and "spawn s r = Inr s'"
  shows "increasing s'"
proof (cases "length (pipes_fb s) < 4")
  case False
  with assms show ?thesis by (simp add: spawn_def)
next
  case True
  let ?new = "Pipe_init (if pipes_fb s \<noteq> [] then x_position (last (pipes_fb s)) + 250
                          else of_int (screen_width_fb s)) r 150"
  have s': "pipes_fb s' = pipes_fb s @ [?new]"
    using assms(2) True by (auto simp: spawn_def Let_def randint_def split: if_splits)
  have "x_position p < x_position ?new" if "p \<in> set (pipes_fb s)" for p
  proof -
    from that have "pipes_fb s \<noteq> []" by auto
    moreover have "x_position p \<le> x_position (last (pipes_fb s))"
      using increasing_le_last assms(1) that by (simp add: increasing_def)
    ultimately show ?thesis by (simp add: Pipe_init_def)
  qed
  then show ?thesis
    using assms(1) by (simp add: increasing_def s' sorted_wrt_append)
qed

lemma update_fb_score:
  assumes "update_fb s d r = Inr s'"
  shows "score_fb s \<le> score_fb s'"
    and "increasing s \<Longrightarrow> score_fb s' \<le> score_fb s + 1 \<and> increasing s'"
proof -
  show "score_fb s \<le> score_fb s'"
  proof (cases "game_over_fb s")
    case True
    with assms show ?thesis by (simp add: update_fb_def)
  next
    case False
    then obtain s6 where s6: "spawn (retire (advance_fb s d)) r = Inr s6"
      using assms by (auto simp: update_fb_def split: sum.splits)
    have "score_fb s6 = score_fb s"
      using spawn_fields(3) [OF s6] by (simp add: retire_fields advance_fb_fields)
    then show ?thesis
      using assms False s6 by (auto simp: update_fb_def Let_def score_loop_count split: if_splits)
  qed
  show "score_fb s' \<le> score_fb s + 1 \<and> increasing s'" if inc: "increasing s"
  proof (cases "game_over_fb s")
    case True
    with assms inc show ?thesis by (simp add: update_fb_def)
  next
    case False
    then obtain s6 where s6: "spawn (retire (advance_fb s d)) r = Inr s6"
      using assms by (auto simp: update_fb_def split: sum.splits)
    have sc: "score_fb s6 = score_fb s"
      using spawn_fields(3) [OF s6] by (simp add: retire_fields advance_fb_fields)
    have inc6: "increasing s6"
      using increasing_spawn [OF _ s6] increasing_retire increasing_advance_fb inc by blast
    have "length (filter (\<lambda>p. x_position p + 50 = x_pos (pilot_fb s6)) (pipes_fb s6)) \<le> 1"
      using inc6 unfolding increasing_def by (rule increasing_filter_le_one)
    then show ?thesis
      using assms False s6 sc inc6
      by (auto simp: update_fb_def Let_def score_loop_count increasing_def split: if_splits)
  qed
qed

lemma updates_fb_score_mono:
  "updates_fb s drs = Inr s' \<Longrightarrow> score_fb s \<le> score_fb s'"
proof (induction drs arbitrary: s)
  case Nil
  then show ?case by simp
next
  case (Cons dr drs)
  obtain d r where dr: "dr = (d, r)" by (cases dr)
  from Cons.prems obtain s1 where s1: "update_fb s d r = Inr s1" "updates_fb s1 drs = Inr s'"
    by (auto simp: dr split: sum.splits)
  have "score_fb s \<le> score_fb s1" using update_fb_score(1) [OF s1(1)] .
  also have "\<dots> \<le> score_fb s'" using Cons.IH [OF s1(2)] .
  finally show ?case .
qed

lemma increasing_init:
  "FlappyBirdGame_init sw sh ps g r0 r1 r2 r3 = Inr s \<Longrightarrow> increasing s"
  by (auto simp: FlappyBirdGame_init_def increasing_def Pipe_init_def split: if_splits)

text \<open>
  \<open>FlappyBirdGame\<close> credits a pipe only in a tick that leaves its trailing edge exactly
  at the pilot's x (\<open>score_loop_count\<close>). With speed 3 the edge here steps from 101 to
  98, and the pipe passes the pilot without a point.
\<close>

lemma sim_exact_hit_missed:
  "\<exists>s'. update_fb sim_near False 300 = Inr s'
         \<and> x_position (hd (pipes_fb sim_near)) + 50 > x_pos (pilot_fb sim_near)
         \<and> x_position (hd (pipes_fb s')) + 50 < x_pos (pilot_fb s')
         \<and> score_fb s' = score_fb sim_near
         \<and> \<not> game_over_fb s'"
  by (simp add: sim_near_def sim_start_def update_fb_def advance_fb_def retire_def spawn_def
      Pilot_init_def Pilot_update_def Pipe_init_def Pipe_update_def check_collision_fb_def
      Let_def)

text \<open>
  C6, as the specification states it, fails: one tick can add more than 1. The level
  \<open>crowded_level\<close> has two pipes that start behind the pilot; it loads, and the first
  tick takes the score from 0 to 2.
\<close>

theorem two_credits_one_tick_counterexample:
  "fst (load_level default_engine crowded_level 550) = None
   \<and> score crowded_engine = 0
   \<and> \<not> game_over crowded_engine
   \<and> score (update crowded_engine False) = 2"
  by (simp add: crowded_engine_eq)
     (simp add: crowded_level_def default_engine_def load_level_def
      GameEngine_init_def reset_def draw_floor_def randint_def Let_def
      update_def advance_def move_pipe_def update_score_def enumerate_eq_zip upt_rec)

text \<open>
  C6, amended. The score never decreases, over one tick or any sequence of ticks, in
  \<open>GameEngine\<close> and in \<open>FlappyBirdGame\<close>. One tick of \<open>GameEngine\<close> adds one point per
  pipe newly credited: at most 1 when every cleared pipe is already credited, which
  holds after any tick of a running engine, and the pipes are spaced at least
  \<open>pipe_speed\<close> apart in x, which a tick preserves. One tick of \<open>FlappyBirdGame\<close> adds
  at most 1 when its pipes are in strictly increasing order of x, which its constructor
  establishes and a tick preserves.
\<close>

theorem score_monotone_step_bound:
  "score g \<le> score (update g d)
   \<and> score g \<le> score (updates g ds)
   \<and> (spaced g \<and> cleared g \<subseteq> passed_pipes g \<longrightarrow>
         score (update g d) \<le> score g + 1
         \<and> spaced (update g d)
         \<and> cleared (update g d) \<subseteq> passed_pipes (update g d))
   \<and> (\<not> game_over g \<longrightarrow> cleared (update g d) \<subseteq> passed_pipes (update g d))
   \<and> (update_fb s d r = Inr s' \<longrightarrow> score_fb s \<le> score_fb s')
   \<and> (updates_fb s drs = Inr s' \<longrightarrow> score_fb s \<le> score_fb s')
   \<and> (increasing s \<and> update_fb s d r = Inr s' \<longrightarrow>
         score_fb s' \<le> score_fb s + 1 \<and> increasing s')
   \<and> (FlappyBirdGame_init sw sh ps gr r0 r1 r2 r3 = Inr s \<longrightarrow> increasing s)"
  using score_update_mono [of g d] score_updates_mono [of g ds]
    update_step_bound [of g d] spaced_update [of g d] cleared_update_settled [of g d]
    update_fb_score [of s d r s'] updates_fb_score_mono [of s drs s']
    increasing_init [of sw sh ps gr r0 r1 r2 r3 s]
  by blast

theorem score_monotone_step_bound_witness:
  "spaced passing_engine
   \<and> cleared passing_engine \<subseteq> passed_pipes passing_engine
   \<and> score passing_engine = 0
   \<and> score (update passing_engine False) = 1
   \<and> increasing sim_start
   \<and> (\<exists>s'. update_fb sim_start False 300 = Inr s'
          \<and> score_fb sim_start \<le> score_fb s' \<and> score_fb s' \<le> score_fb sim_start + 1)"
proof -
  have pe: "passing_engine =
     \<lparr> screen_width = 800, screen_height = 600, pipe_speed = 3, gravity = 1 / 2,
       pilot_x = 100, pilot_y = 293, pilot_width = 30, pilot_height = 30,
       pilot_velocity = - 15 / 2, jump_velocity = - 8, floor_y = 550,
       pipes = [\<lparr> xPosition = 51, topPipe = 225, bottomPipe = 375 \<rparr>,
                \<lparr> xPosition = 301, topPipe = 225, bottomPipe = 375 \<rparr>],
       score = 0, frame_count = 2, game_over = False, passed_pipes = {},
       autopilot = False \<rparr>"
    by (simp add: passing_engine_def running_engine_eq)
  have sp: "spaced passing_engine"
    by (simp add: pe spaced_def)
  have cl: "cleared passing_engine \<subseteq> passed_pipes passing_engine"
    by (simp add: pe cleared_def enumerate_eq_zip upt_rec)
  have up: "score (update passing_engine False) = 1"
    by (simp add: pe update_def advance_def move_pipe_def update_score_def
        check_collision_def enumerate_eq_zip upt_rec Let_def)
  have inc: "increasing sim_start"
    using sim_start_constructed
      score_monotone_step_bound
        [where s = sim_start and sw = 800 and sh = 600 and ps = 3 and gr = "1 / 2"
           and ?r0.0 = 300 and ?r1.0 = 300 and ?r2.0 = 300 and ?r3.0 = 300]
    by blast
  obtain s' where s': "update_fb sim_start False 300 = Inr s'"
    using update_fb_frame [of sim_start False 300] by (auto simp: sim_start_def)
  have "score (update passing_engine False) \<le> score passing_engine + 1
        \<and> score_fb sim_start \<le> score_fb s' \<and> score_fb s' \<le> score_fb sim_start + 1"
    using sp cl inc s'
      score_monotone_step_bound
        [where g = passing_engine and d = False and ds = "[]" and s = sim_start
           and r = 300 and s' = s' and drs = "[]"]
    by blast
  with sp cl up inc s' show ?thesis
    by (auto simp: pe)
qed

subsection \<open>The length of the track\<close>

lemma lookahead_okE:
  assumes "lookahead_ok s"
  obtains a b c e where "pipes_fb s = [a, b, c, e]" and "- 100 < x_position a"
    and "x_position b = x_position a + 250" and "x_position c = x_position b + 250"
    and "x_position e = x_position c + 250"
proof -
  from assms have "length (pipes_fb s) = 4" by (simp add: lookahead_ok_def)
  then obtain a b c e where ps: "pipes_fb s = [a, b, c, e]"
    by (auto simp: numeral_eq_Suc length_Suc_conv)
  with assms that show ?thesis
    by (simp add: lookahead_ok_def)
qed

lemma track_step:
  assumes "lookahead_ok s" and "pipe_speed_fb s \<le> 250" and "300 \<le> screen_height_fb s"
  shows "\<exists>s6. spawn (retire (advance_fb s d)) r = Inr s6 \<and> lookahead_ok s6
              \<and> pipe_speed_fb s6 = pipe_speed_fb s \<and> screen_height_fb s6 = screen_height_fb s"
proof -
  obtain a b c e where ps: "pipes_fb s = [a, b, c, e]" and xa: "- 100 < x_position a"
    and xb: "x_position b = x_position a + 250" and xc: "x_position c = x_position b + 250"
    and xe: "x_position e = x_position c + 250"
    using assms(1) by (rule lookahead_okE)
  let ?v = "pipe_speed_fb s"
  show ?thesis
  proof (cases "x_position a - ?v > - 100")
    case True
    then show ?thesis
      using ps xa xb xc xe assms(2,3)
      by (simp add: spawn_def retire_def advance_fb_def Let_def Pipe_update_def lookahead_ok_def)
  next
    case False
    then show ?thesis
      using ps xa xb xc xe assms(2,3)
      by (simp add: spawn_def retire_def advance_fb_def Let_def Pipe_update_def lookahead_ok_def
          randint_def Pipe_init_def)
  qed
qed

lemma update_fb_lookahead:
  assumes "lookahead_ok s" and "pipe_speed_fb s \<le> 250" and "300 \<le> screen_height_fb s"
  shows "\<exists>s'. update_fb s d r = Inr s' \<and> lookahead_ok s'
              \<and> pipe_speed_fb s' = pipe_speed_fb s \<and> screen_height_fb s' = screen_height_fb s"
proof (cases "game_over_fb s")
  case True
  with assms show ?thesis by (simp add: update_fb_def)
next
  case False
  obtain s6 where s6: "spawn (retire (advance_fb s d)) r = Inr s6" "lookahead_ok s6"
    "pipe_speed_fb s6 = pipe_speed_fb s" "screen_height_fb s6 = screen_height_fb s"
    using track_step [OF assms] by blast
  show ?thesis
    using False s6 by (simp add: update_fb_def Let_def lookahead_ok_def)
qed

lemma updates_fb_lookahead:
  assumes "lookahead_ok s" and "pipe_speed_fb s \<le> 250" and "300 \<le> screen_height_fb s"
  shows "\<exists>s'. updates_fb s drs = Inr s' \<and> lookahead_ok s'"
  using assms
proof (induction drs arbitrary: s)
  case Nil
  then show ?case by simp
next
  case (Cons dr drs)
  obtain d r where dr: "dr = (d, r)" by (cases dr)
  obtain s1 where s1: "update_fb s d r = Inr s1" "lookahead_ok s1"
    "pipe_speed_fb s1 = pipe_speed_fb s" "screen_height_fb s1 = screen_height_fb s"
    using update_fb_lookahead [OF Cons.prems] by blast
  then have "\<exists>s'. updates_fb s1 drs = Inr s' \<and> lookahead_ok s'"
    using Cons.prems by (intro Cons.IH) simp_all
  with s1(1) show ?case by (simp add: dr)
qed

lemma lookahead_init:
  assumes "FlappyBirdGame_init sw sh ps g r0 r1 r2 r3 = Inr s" and "- 100 < sw"
  shows "lookahead_ok s" and "300 \<le> screen_height_fb s" and "pipe_speed_fb s = ps"
  using assms
  by (auto simp: FlappyBirdGame_init_def lookahead_ok_def Pipe_init_def split: if_splits)

lemma length_pipes_update: "length (pipes (update g d)) = length (pipes g)"
  by (simp add: update_def Let_def update_score_eq advance_fields)

lemma length_pipes_updates: "length (pipes (updates g ds)) = length (pipes g)"
  by (induction ds arbitrary: g) (simp_all add: length_pipes_update)

lemma length_pipes_load:
  "load_level prev cfg r = (None, g) \<Longrightarrow> length (pipes g) = length (pipes_cfg cfg)"
  by (auto simp: load_level_def Let_def reset_def split: sum.splits)

text \<open>
  The bound on the speed is needed: \<open>update\<close> spawns at most one pipe per tick, so
  pipes fast enough to retire all four at once leave a track of length 1.
\<close>

lemma fast_pipes_shorten_track:
  "lookahead_ok sim_start
   \<and> (\<exists>s'. update_fb (sim_start\<lparr> pipe_speed_fb := 2000 \<rparr>) False 300 = Inr s'
          \<and> length (pipes_fb s') = 1)"
  by (simp add: sim_start_def lookahead_ok_def update_fb_def advance_fb_def retire_def spawn_def
      randint_def Pilot_init_def Pilot_update_def Pipe_init_def Pipe_update_def
      check_collision_fb_def Let_def)

text \<open>
  C8, as the specification states it, fails: \<open>GameEngine\<close> has no lookahead count.
  It neither retires nor spawns, so the track keeps the length of the level loaded: 1
  for the level \<open>"simple"\<close> and 5 for the level \<open>"medium"\<close>, both with at least one
  initial obstacle.
\<close>

theorem lookahead_count_counterexample:
  "pipes_cfg simple_level \<noteq> []
   \<and> fst (load_level default_engine simple_level 550) = None
   \<and> length (pipes (updates (snd (load_level default_engine simple_level 550)) [False, True])) = 1
   \<and> pipes_cfg medium_level \<noteq> []
   \<and> fst (load_level default_engine medium_level 550) = None
   \<and> length (pipes (updates (snd (load_level default_engine medium_level 550)) [False, True])) = 5"
  by (simp add: length_pipes_updates del: updates.simps)
     (simp add: simple_level_def medium_level_def load_level_def draw_floor_def randint_def
      reset_def Let_def)

text \<open>
  C8, amended. In \<open>FlappyBirdGame\<close>, whose lookahead count is 4, spacing 250 and
  retirement x -100, the track has length 4 after any sequence of ticks, none of which
  raises, provided the pipes move at most 250 per tick, on the screens its constructor
  accepts (at least 300 high) and, for the initial track, a screen width above -100. In
  \<open>GameEngine\<close> the track keeps the length of the loaded level's obstacle list after any
  sequence of ticks.
\<close>

theorem track_length_kept:
  "(lookahead_ok s \<and> pipe_speed_fb s \<le> 250 \<and> 300 \<le> screen_height_fb s \<longrightarrow>
      (\<exists>s'. updates_fb s drs = Inr s' \<and> lookahead_ok s' \<and> length (pipes_fb s') = 4))
   \<and> (FlappyBirdGame_init sw sh ps gr r0 r1 r2 r3 = Inr s \<and> - 100 < sw \<longrightarrow>
        lookahead_ok s \<and> 300 \<le> screen_height_fb s \<and> pipe_speed_fb s = ps)
   \<and> length (pipes (updates g ds)) = length (pipes g)
   \<and> (load_level prev cfg r = (None, g) \<longrightarrow>
        length (pipes (updates g ds)) = length (pipes_cfg cfg))"
proof -
  have "\<exists>s'. updates_fb s drs = Inr s' \<and> lookahead_ok s' \<and> length (pipes_fb s') = 4"
    if "lookahead_ok s" "pipe_speed_fb s \<le> 250" "300 \<le> screen_height_fb s"
    using updates_fb_lookahead [OF that, of drs] by (auto simp: lookahead_ok_def)
  then show ?thesis
    using lookahead_init [of sw sh ps gr r0 r1 r2 r3 s] length_pipes_updates [of g ds]
      length_pipes_load [of prev cfg r g]
    by simp
qed

theorem track_length_kept_witness:
  "FlappyBirdGame_init 800 600 3 (1 / 2) 300 300 300 300 = Inr sim_start
   \<and> lookahead_ok sim_start
   \<and> (\<exists>s'. updates_fb sim_start [(False, 300), (True, 200), (True, 400)] = Inr s'
          \<and> length (pipes_fb s') = 4)
   \<and> length (pipes (updates (snd (load_level default_engine medium_level 550)) [False, True])) = 5"
proof -
  let ?g = "snd (load_level default_engine medium_level 550)"
  have loaded: "load_level default_engine medium_level 550 = (None, ?g)"
    by (simp add: medium_level_def load_level_def draw_floor_def randint_def Let_def)
  have n: "length (pipes_cfg medium_level) = 5"
    by (simp add: medium_level_def)
  have init: "FlappyBirdGame_init 800 600 3 (1 / 2) 300 300 300 300 = Inr sim_start"
    "(- 100 :: int) < 800"
    by (simp_all add: sim_start_constructed)
  note t = track_length_kept
        [where s = sim_start and drs = "[(False, 300), (True, 200), (True, 400)]"
           and sw = 800 and sh = 600 and ps = 3 and gr = "1 / 2" and ?r0.0 = 300 and ?r1.0 = 300
           and ?r2.0 = 300 and ?r3.0 = 300 and g = ?g and ds = "[False, True]"
           and prev = default_engine and cfg = medium_level and r = 550]
  have ok: "lookahead_ok sim_start \<and> 300 \<le> screen_height_fb sim_start \<and> pipe_speed_fb sim_start = 3"
    using t init by blast
  then have "\<exists>s'. updates_fb sim_start [(False, 300), (True, 200), (True, 400)] = Inr s'
          \<and> length (pipes_fb s') = 4"
    using t by auto
  moreover have "length (pipes (updates ?g [False, True])) = 5"
    using t loaded n by simp
  ultimately show ?thesis
    using init(1) ok by blast
qed

subsection \<open>Reset\<close>



end
